theory Spec2Isabelle
  imports Complex_Main "HOL-Library.Multiset"
begin

section \<open>Exceptions and values\<close>

text \<open>
  The exceptions that the embedded code can raise, as values.  The first group are the
  Python exceptions raised by the source itself (dictionary lookups, \<open>max\<close> of an empty
  sequence, attribute access on an unset field, an unbound local, operating-system
  failures).  The second group is the error taxonomy of the design document; no statement
  of the source constructs one of them.
\<close>

datatype error =
    KeyError string
  | ValueError string
  | AttributeError string
  | NameError string
  | OSError string
  | TypeError string
  | InvalidFactor string
  | EmptyDesign
  | LogFormatError
  | MissingMetric string

text \<open>
  A profiler reading is a Python float.  A finite float is the rational that it denotes;
  the result of a float operation can also be \<open>nan\<close> or one of the two infinities.
\<close>

datatype metric = Num rat | NaN | PosInf | NegInf

type_synonym series = "rat list"
  \<comment> \<open>the \<open>.values()\<close> view of one parsed column, in row order\<close>

type_synonym parsed_log = "string \<rightharpoonup> series"
  \<comment> \<open>the dictionary returned by \<open>parse_log\<close>: column name to column\<close>

type_synonym summary = "string \<rightharpoonup> rat"
  \<comment> \<open>the one-row summary record of the wrapping profiler\<close>

type_synonym run_data = "(string \<times> metric) list"
  \<comment> \<open>the dictionary literal returned by \<open>populate_run_data\<close>, in key order\<close>

section \<open>Python primitives used by the metric extraction\<close>

definition subscript :: "(string \<rightharpoonup> 'v) \<Rightarrow> string \<Rightarrow> error + 'v" where
  "subscript d k = (case d k of None \<Rightarrow> Inl (KeyError k) | Some v \<Rightarrow> Inr v)"

definition py_max :: "series \<Rightarrow> error + rat" where
  "py_max vs =
     (case vs of
        [] \<Rightarrow> Inl (ValueError ''max() arg is an empty sequence'')
      | v # rest \<Rightarrow> Inr (foldl (\<lambda>m x. if m < x then x else m) v rest))"

text \<open>
  The float arithmetic of the interpreter and of numpy is the environment: \<open>py_sum\<close> is
  the builtin \<open>sum\<close> of a list of floats, \<open>py_round3\<close> the builtin \<open>round(x, 3)\<close> of
  a float, \<open>np_mean\<close> is \<open>numpy.mean\<close> of a list, and \<open>np_round3\<close> is \<open>round(x, 3)\<close>
  of a \<open>numpy.float64\<close>.  Each gives a binary64 value, rounded as the library rounds.
\<close>

record float_ops =
  py_sum :: "series \<Rightarrow> metric"
  py_round3 :: "metric \<Rightarrow> metric"
  np_mean :: "series \<Rightarrow> metric"
  np_round3 :: "metric \<Rightarrow> metric"

section \<open>Metric extraction: \<open>populate_run_data\<close>\<close>

text \<open>
  \<open>RunnerConfig_EnergiBridge.populate_run_data\<close>.  The call to \<open>parse_log\<close> belongs to
  the profiler plugin; its outcome (an exception, or the pair of the parsed log and the
  summary) is the argument.  The dictionary literal is evaluated left to right, so the
  first absent key decides the exception.
\<close>

definition populate_run_data_EnergiBridge ::
  "error + (parsed_log \<times> summary) \<Rightarrow> error + run_data" where
  "populate_run_data_EnergiBridge parsed =
     (case parsed of
        Inl e \<Rightarrow> Inl e
      | Inr (eb_log, eb_summary) \<Rightarrow>
          (case subscript eb_summary ''total_joules'' of
             Inl e \<Rightarrow> Inl e
           | Inr energy \<Rightarrow>
               (case subscript eb_summary ''runtime_seconds'' of
                  Inl e \<Rightarrow> Inl e
                | Inr runtime \<Rightarrow>
                    (case subscript eb_log ''USED_MEMORY'' of
                       Inl e \<Rightarrow> Inl e
                     | Inr used \<Rightarrow>
                         (case py_max used of
                            Inl e \<Rightarrow> Inl e
                          | Inr memory \<Rightarrow>
                              Inr [(''energy'', Num energy),
                                   (''runtime'', Num runtime),
                                   (''memory'', Num memory)])))))"

text \<open>
  \<open>RunnerConfig_PowerJoular.populate_run_data\<close>.  Two logs are parsed, the global one
  and the one of the target process; the second result is bound and never read.  The
  sum and the mean, and the two roundings, are those of \<open>ops\<close>.
\<close>

definition populate_run_data_PowerJoular ::
  "float_ops \<Rightarrow> error + parsed_log \<Rightarrow> error + parsed_log \<Rightarrow> error + run_data" where
  "populate_run_data_PowerJoular ops parsed_global parsed_process =
     (case parsed_global of
        Inl e \<Rightarrow> Inl e
      | Inr results_global \<Rightarrow>
          (case parsed_process of
             Inl e \<Rightarrow> Inl e
           | Inr results_process \<Rightarrow>
               (case subscript results_global ''CPU Utilization'' of
                  Inl e \<Rightarrow> Inl e
                | Inr util \<Rightarrow>
                    (case subscript results_global ''CPU Power'' of
                       Inl e \<Rightarrow> Inl e
                     | Inr cpu_power \<Rightarrow>
                         Inr [(''avg_cpu'', np_round3 ops (np_mean ops util)),
                              (''total_energy'', py_round3 ops (py_sum ops cpu_power))]))))"





text \<open>
  The answers of the float arithmetic on the readings of one log, the utilisations 12, 13,
  14 and the powers 10, 10, 10: the sum of the powers is 30.0, the mean of the
  utilisations is 13.0, and rounding to three places leaves both as they are.
\<close>

definition example_log :: parsed_log where
  "example_log = [''CPU Utilization'' \<mapsto> [12, 13, 14], ''CPU Power'' \<mapsto> [10, 10, 10]]"

definition example_arithmetic :: float_ops where
  "example_arithmetic =
     \<lparr>py_sum = (\<lambda>vs. Num 30),
      py_round3 = (\<lambda>m. m),
      np_mean = (\<lambda>vs. Num 13),
      np_round3 = (\<lambda>m. m)\<rparr>"

section \<open>The OCR workloads: \<open>run_paddle.py\<close> and \<open>run_tesseract.py\<close>\<close>

text \<open>
  The command-line arguments after \<open>argparse\<close>: the two integers have the default 0,
  an option that was not given is \<open>None\<close>.
\<close>

record args =
  sample_size :: int
  seed :: int
  dataset :: "string option"
  run_dir :: "string option"
  document_type :: "string option"
  language_type :: "string option"

definition endswith :: "string \<Rightarrow> string \<Rightarrow> bool" where
  "endswith s suf = (length suf \<le> length s \<and> drop (length s - length suf) s = suf)"

definition image_suffixes :: "string list" where
  "image_suffixes = [''.png'', ''.jpg'', ''.jpeg'', ''.tiff'']"

definition endswith_any :: "string \<Rightarrow> string list \<Rightarrow> bool" where
  "endswith_any s sufs = list_ex (endswith s) sufs"

text \<open>
  \<open>str.lower\<close> on the ASCII letters; every other character is left as it is.
\<close>

definition lower_char :: "char \<Rightarrow> char" where
  "lower_char c =
     (let n = (of_char c :: nat) in if 65 \<le> n \<and> n \<le> 90 then char_of (n + 32) else c)"

definition py_lower :: "string \<Rightarrow> string" where
  "py_lower s = map lower_char s"

definition truthy :: "string option \<Rightarrow> bool" where
  "truthy a = (case a of None \<Rightarrow> False | Some s \<Rightarrow> s \<noteq> [])"

definition os_path_join :: "string \<Rightarrow> string \<Rightarrow> string" where
  "os_path_join a b =
     (if b \<noteq> [] \<and> hd b = CHR ''/'' then b
      else if a = [] \<or> last a = CHR ''/'' then a @ b
      else a @ ''/'' @ b)"

fun py_join :: "string \<Rightarrow> string list \<Rightarrow> string" where
  "py_join sep [] = []"
| "py_join sep [x] = x"
| "py_join sep (x # y # ys) = x @ sep @ py_join sep (y # ys)"

text \<open>
  The operating system and the libraries the scripts call are the environment:
  \<open>listdir\<close> gives the directory listing or raises; \<open>rng_sample seed population k\<close> is
  \<open>random.Random(seed).sample(population, k)\<close>; \<open>make_ocr\<close> is the construction of the
  OCR engine from the model name and the language (None when it succeeds); \<open>predict\<close> is everything inside the \<open>try\<close> block of
  the loop for one image path (the recognised text, or the exception raised);
  \<open>write_json\<close> is opening the result file and dumping into it.
\<close>

record 'txt workload_env =
  listdir :: "string \<Rightarrow> error + string list"
  rng_sample :: "int \<Rightarrow> string list \<Rightarrow> nat \<Rightarrow> string list"
  make_ocr :: "string \<Rightarrow> string \<Rightarrow> error option"
  predict :: "string \<Rightarrow> error + 'txt"
  write_json :: "string \<Rightarrow> error option"

text \<open>
  What the standard library promises of \<open>sample\<close>: for \<open>k\<close> at most the size of the
  population, a list of \<open>k\<close> elements of the population.
\<close>

definition sample_contract :: "(int \<Rightarrow> string list \<Rightarrow> nat \<Rightarrow> string list) \<Rightarrow> bool" where
  "sample_contract smp =
     (\<forall>s xs k. k \<le> length xs \<longrightarrow> length (smp s xs k) = k \<and> set (smp s xs k) \<subseteq> set xs)"

text \<open>Lines 19 to 38 of both scripts: the folder, the listing, the sample.\<close>

definition select_images :: "'txt workload_env \<Rightarrow> args \<Rightarrow> error + (string \<times> string list)" where
  "select_images env a =
     (if truthy (dataset a) \<and> truthy (document_type a) then
        (let img_folder = the (dataset a) @ ''/'' @ the (document_type a) in
         case listdir env img_folder of
           Inl e \<Rightarrow> Inl e
         | Inr names \<Rightarrow>
             (let all_images = filter (\<lambda>name. endswith_any name image_suffixes) names in
              if all_images = [] then Inl (ValueError ''No images found in the specified folder.'')
              else if sample_size a > 0 then
                (let sample_count = min (sample_size a) (int (length all_images))
                 in Inr (img_folder, rng_sample env (seed a) all_images (nat sample_count)))
              else Inr (img_folder, all_images)))
      else Inl (ValueError ''Please provide a dataset path using --dataset and --document-type.''))"

type_synonym ocr_result = "string \<times> string"
  \<comment> \<open>one record of the results array: the image name and the prediction\<close>

text \<open>The loop of \<open>run_paddle.py\<close>, lines 49 to 60; \<open>results\<close> is the accumulator.\<close>

fun paddle_loop ::
  "string list workload_env \<Rightarrow> string \<Rightarrow> string list \<Rightarrow> ocr_result list \<Rightarrow> ocr_result list" where
  "paddle_loop env img_folder [] results = results"
| "paddle_loop env img_folder (img_name # rest) results =
     paddle_loop env img_folder rest
       (case predict env (os_path_join img_folder img_name) of
          Inr text_lines \<Rightarrow> results @ [(img_name, py_join [CHR 0x0A] text_lines)]
        | Inl e \<Rightarrow> results @ [(img_name, [])])"

text \<open>The loop of \<open>run_tesseract.py\<close>, lines 39 to 49, with its \<open>continue\<close>.\<close>

fun tesseract_loop ::
  "string workload_env \<Rightarrow> string \<Rightarrow> string list \<Rightarrow> ocr_result list \<Rightarrow> ocr_result list" where
  "tesseract_loop env img_folder [] results = results"
| "tesseract_loop env img_folder (img_name # rest) results =
     (if \<not> endswith_any (py_lower img_name) image_suffixes
      then tesseract_loop env img_folder rest results
      else tesseract_loop env img_folder rest
        (case predict env (os_path_join img_folder img_name) of
           Inr txt \<Rightarrow> results @ [(img_name, txt)]
         | Inl e \<Rightarrow> results @ [(img_name, [])]))"

text \<open>
  The whole scripts.  The value returned is what is written: the file location and the
  results array.  In \<open>run_paddle.py\<close> the name \<open>model_name\<close> is bound only for the
  languages \<open>eng\<close> and \<open>ara\<close>; the file location concatenates \<open>args.run_dir\<close>, which
  raises when the option was not given.
\<close>

definition save_results ::
  "'txt workload_env \<Rightarrow> args \<Rightarrow> string \<Rightarrow> ocr_result list \<Rightarrow> error + (string \<times> ocr_result list)" where
  "save_results env a file_name results =
     (case run_dir a of
        None \<Rightarrow> Inl (TypeError ''can only concatenate str (not NoneType) to str'')
      | Some d \<Rightarrow>
          (let file_location = ''experiments/new_runner_experiment/'' @ d @ file_name in
           case write_json env file_location of
             Some e \<Rightarrow> Inl e
           | None \<Rightarrow> Inr (file_location, results)))"

definition run_paddle ::
  "string list workload_env \<Rightarrow> args \<Rightarrow> error + (string \<times> ocr_result list)" where
  "run_paddle env a =
     (case select_images env a of
        Inl e \<Rightarrow> Inl e
      | Inr (img_folder, images) \<Rightarrow>
          (let model_name =
                 (if language_type a = Some ''eng'' then Some ''PP-OCRv5_mobile_rec''
                  else if language_type a = Some ''ara'' then Some ''arabic_PP-OCRv3_mobile_rec''
                  else None)
           in case model_name of
                None \<Rightarrow> Inl (NameError ''model_name'')
              | Some m \<Rightarrow>
                  (case make_ocr env m (the (language_type a)) of
                     Some e \<Rightarrow> Inl e
                   | None \<Rightarrow>
                       save_results env a ''/paddleocr_results.json''
                         (paddle_loop env img_folder images []))))"

definition run_tesseract ::
  "string workload_env \<Rightarrow> args \<Rightarrow> error + (string \<times> ocr_result list)" where
  "run_tesseract env a =
     (case select_images env a of
        Inl e \<Rightarrow> Inl e
      | Inr (img_folder, images) \<Rightarrow>
          save_results env a ''/tesseract_results.json''
            (tesseract_loop env img_folder images []))"

text \<open>
  An invocation to evaluate the scripts on: a folder of three images and a text file, a
  sampler that takes the first \<open>k\<close> names of the listing (reversed for an even seed), and
  an OCR engine that fails on the image \<open>p3.tiff\<close>.
\<close>

definition example_args :: args where
  "example_args =
     \<lparr>sample_size = 2, seed = 42, dataset = Some ''Omni_Dataset'',
      run_dir = Some ''run_0_repetition_0'', document_type = Some ''Book'',
      language_type = Some ''eng''\<rparr>"

definition example_env :: "(string \<Rightarrow> error + 'txt) \<Rightarrow> 'txt workload_env" where
  "example_env recognise =
     \<lparr>listdir = (\<lambda>d. if d = ''Omni_Dataset/Book''
                     then Inr [''p1.png'', ''readme.txt'', ''p2.jpg'', ''p3.tiff'']
                     else Inl (OSError ''No such file or directory'')),
      rng_sample = (\<lambda>s xs k. take k (if even s then rev xs else xs)),
      make_ocr = (\<lambda>m l. None),
      predict = recognise,
      write_json = (\<lambda>f. None)\<rparr>"

definition example_paddle_env :: "string list workload_env" where
  "example_paddle_env =
     example_env (\<lambda>p. if p = ''Omni_Dataset/Book/p3.tiff''
                       then Inl (OSError ''cannot identify image file'')
                       else Inr [''line one'', ''line two''])"

definition example_tesseract_env :: "string workload_env" where
  "example_tesseract_env =
     example_env (\<lambda>p. if p = ''Omni_Dataset/Book/p3.tiff''
                       then Inl (OSError ''cannot identify image file'')
                       else Inr ''some text'')"

section \<open>The declared run table models\<close>

text \<open>
  A level is a string or an integer (the levels of \<open>sample_size\<close>).  A factor is what
  \<open>FactorModel(name, levels)\<close> is given.  An exclusion rule is the dictionary from factors
  to lists of levels of the source, keyed here by the factor's name.
\<close>

datatype level = LStr string | LInt int

record factor =
  factor_name :: string
  levels :: "level list"

type_synonym exclusion_rule = "(string \<times> level list) list"

record run_table_model =
  factors :: "factor list"
  exclude_combinations :: "exclusion_rule list"
  data_columns :: "string list"
  repetitions :: nat
  shuffle :: bool

definition document_types :: "level list" where
  "document_types =
     [LStr ''Old_books_2noise'', LStr ''Old_books_Arabic'', LStr ''Old_books_No_noise'',
      LStr ''Book'', LStr ''Newspaper'', LStr ''notes'', LStr ''slides'']"

text \<open>\<open>RunnerConfig_EnergiBridge.create_run_table_model\<close>.\<close>

definition create_run_table_model_EnergiBridge :: run_table_model where
  "create_run_table_model_EnergiBridge =
     \<lparr>factors =
        [\<lparr>factor_name = ''ocr_library'', levels = [LStr ''paddle'', LStr ''tesseract'']\<rparr>,
         \<lparr>factor_name = ''document_type'', levels = document_types\<rparr>,
         \<lparr>factor_name = ''dataset'', levels = [LStr ''Noisy_Dataset'', LStr ''Omni_Dataset'']\<rparr>,
         \<lparr>factor_name = ''sample_size'', levels = [LInt 1, LInt 20]\<rparr>,
         \<lparr>factor_name = ''language'', levels = [LStr ''eng'', LStr ''ara'']\<rparr>],
      exclude_combinations =
        [[(''document_type'',
             [LStr ''Old_books_2noise'', LStr ''Old_books_Arabic'', LStr ''Old_books_No_noise'']),
          (''dataset'', [LStr ''Omni_Dataset''])],
         [(''document_type'', [LStr ''Book'', LStr ''Newspaper'', LStr ''notes'', LStr ''slides'']),
          (''dataset'', [LStr ''Noisy_Dataset''])],
         [(''document_type'',
             [LStr ''Old_books_No_noise'', LStr ''Old_books_2noise'', LStr ''Book'',
              LStr ''Newspaper'', LStr ''notes'', LStr ''slides'']),
          (''language'', [LStr ''ara''])],
         [(''document_type'', [LStr ''Old_books_Arabic'']),
          (''language'', [LStr ''eng''])]],
      data_columns = [''energy'', ''runtime'', ''memory''],
      repetitions = 30,
      shuffle = True\<rparr>"

text \<open>\<open>RunnerConfig_PowerJoular.create_run_table_model\<close>.\<close>

definition create_run_table_model_PowerJoular :: run_table_model where
  "create_run_table_model_PowerJoular =
     \<lparr>factors =
        [\<lparr>factor_name = ''ocr_library'', levels = [LStr ''paddle'', LStr ''tesseract'']\<rparr>,
         \<lparr>factor_name = ''document_type'', levels = document_types\<rparr>,
         \<lparr>factor_name = ''dataset'', levels = [LStr ''Noisy_Dataset'', LStr ''Omni_Dataset'']\<rparr>,
         \<lparr>factor_name = ''sample_size'', levels = [LInt 1, LInt 5, LInt 10, LInt 20]\<rparr>,
         \<lparr>factor_name = ''language'', levels = [LStr ''eng'', LStr ''ara'']\<rparr>],
      exclude_combinations =
        [[(''document_type'',
             [LStr ''Old_books_2noise'', LStr ''Old_books_Arabic'', LStr ''Old_books_No_noise'']),
          (''dataset'', [LStr ''Omni_Dataset''])],
         [(''document_type'', [LStr ''Book'', LStr ''Newspaper'', LStr ''notes'', LStr ''slides'']),
          (''dataset'', [LStr ''Noisy_Dataset''])],
         [(''document_type'',
             [LStr ''Old_books_2noise'', LStr ''Old_books_No_noise'', LStr ''Book'',
              LStr ''Newspaper'', LStr ''notes'', LStr ''slides'']),
          (''language'', [LStr ''ara''])],
         [(''document_type'', [LStr ''Old_books_Arabic'']),
          (''language'', [LStr ''eng''])]],
      data_columns = [''avg_cpu'', ''total_energy''],
      repetitions = 10,
      shuffle = True\<rparr>"

section \<open>The run table generator\<close>

type_synonym assignment = "(string \<times> level) list"
  \<comment> \<open>one level for every factor, in the order of the factors\<close>

type_synonym run_configuration = "assignment \<times> nat"
  \<comment> \<open>an assignment and its repetition index\<close>

text \<open>
  Modelled from the spec: the class \<open>RunTableModel\<close>, which expands a declared model
  into the run table, is not among the sources.  The definitions of this section follow
  the data model (section 3) and the algorithm of the generator (section 4.1) of the
  design document.  Step 1, the Cartesian product in the order of the factors.
\<close>

fun cartesian :: "factor list \<Rightarrow> assignment list" where
  "cartesian [] = [[]]"
| "cartesian (f # fs) =
     concat (map (\<lambda>l. map (\<lambda>a. (factor_name f, l) # a) (cartesian fs)) (levels f))"

text \<open>
  Modelled from the spec: a configuration matches a rule if, for every factor named in
  the rule, its level for that factor is one of the levels the rule lists for it.
\<close>

definition matches :: "exclusion_rule \<Rightarrow> assignment \<Rightarrow> bool" where
  "matches rule a =
     list_all (\<lambda>(f, ls). case map_of a f of None \<Rightarrow> False | Some l \<Rightarrow> l \<in> set ls) rule"

definition excluded :: "exclusion_rule list \<Rightarrow> assignment \<Rightarrow> bool" where
  "excluded rules a = list_ex (\<lambda>rule. matches rule a) rules"

text \<open>Modelled from the spec: step 2, the candidates that no rule matches.\<close>

definition survivors :: "factor list \<Rightarrow> exclusion_rule list \<Rightarrow> assignment list" where
  "survivors fs rules = filter (\<lambda>a. \<not> excluded rules a) (cartesian fs)"

text \<open>
  Modelled from the spec: step 3, every surviving assignment \<open>reps\<close> times, with the
  repetition indices 0, 1, ...
\<close>

definition replicate_runs :: "nat \<Rightarrow> assignment list \<Rightarrow> run_configuration list" where
  "replicate_runs reps as = concat (map (\<lambda>a. map (\<lambda>j. (a, j)) [0..<reps]) as)"

text \<open>
  Modelled from the spec: step 4, a permutation decided by the seed.  The design
  document fixes no generator of random numbers; \<open>draws\<close> is the stream of numbers that
  the seeded generator yields, and the permutation takes, at step \<open>k\<close>, the element at
  position \<open>draws k mod n\<close> of the \<open>n\<close> elements that are left.
\<close>

function shuffle_with :: "(nat \<Rightarrow> nat) \<Rightarrow> nat \<Rightarrow> 'a list \<Rightarrow> 'a list" where
  "shuffle_with draws k xs =
     (if xs = [] then []
      else (let i = draws k mod length xs
            in xs ! i # shuffle_with draws (Suc k) (take i xs @ drop (Suc i) xs)))"
  by pat_completeness auto
termination
proof (relation "measure (\<lambda>(draws, k, xs). length xs)", goal_cases)
  case 1
  show ?case by simp
next
  case (2 draws k xs i)
  then have "i < length xs" by simp
  then have "i + (length xs - Suc i) < length xs" by arith
  then show ?case by simp
qed

declare shuffle_with.simps [simp del]

text \<open>
  Modelled from the spec: \<open>generate(factor_space, exclusion_rules, repetitions, shuffle,
  seed)\<close>, with the two failures of section 4.1: a factor without levels, found before
  the product is computed, and a design of which nothing survives.  \<open>rng seed\<close> is the
  stream of the generator of random numbers seeded with \<open>seed\<close>.
\<close>

definition generate ::
  "(int \<Rightarrow> nat \<Rightarrow> nat) \<Rightarrow> factor list \<Rightarrow> exclusion_rule list \<Rightarrow> nat \<Rightarrow> bool \<Rightarrow> int
     \<Rightarrow> error + run_configuration list" where
  "generate rng fs rules reps shuffle_flag seed_value =
     (case find (\<lambda>f. levels f = []) fs of
        Some f \<Rightarrow> Inl (InvalidFactor (factor_name f))
      | None \<Rightarrow>
          (let kept = survivors fs rules in
           if kept = [] then Inl EmptyDesign
           else (let table = replicate_runs reps kept
                 in Inr (if shuffle_flag then shuffle_with (rng seed_value) 0 table else table))))"

text \<open>
  The table of a declared model.  The declarations pass no seed: it is an argument here,
  as in the contract of the generator.
\<close>

definition generate_run_table ::
  "(int \<Rightarrow> nat \<Rightarrow> nat) \<Rightarrow> run_table_model \<Rightarrow> int \<Rightarrow> error + run_configuration list" where
  "generate_run_table rng m seed_value =
     generate rng (factors m) (exclude_combinations m) (repetitions m) (shuffle m) seed_value"

section \<open>The run lifecycle of the attaching configuration\<close>

type_synonym path = "string list"
  \<comment> \<open>a \<open>pathlib.Path\<close>, by its components; \<open>p / name\<close> appends one\<close>

definition path_name :: "path \<Rightarrow> string" where
  "path_name p = (if p = [] then [] else last p)"

text \<open>
  \<open>RunnerContext\<close>: the run's row of the table, rendered as the f-string renders it,
  and the run directory.
\<close>

record runner_context =
  execute_run :: "string \<rightharpoonup> string"
  context_run_dir :: path

text \<open>
  What the hooks do to the world, in the order in which they do it: the process
  identifier names the target.
\<close>

datatype event =
    Spawned nat string
  | ProfilerStarted nat path
  | TargetTerminated nat
  | ProfilerStopped nat
  | TargetKilled nat

text \<open>
  The fields that the hooks of \<open>RunnerConfig_PowerJoular\<close> set on \<open>self\<close> (\<open>target\<close>, the
  handle of the spawned process, by its pid; \<open>meter\<close>, the profiler with the pid and the
  file it was given), and the trace of the events so far.  A field is \<open>None\<close> until a hook
  assigns it.
\<close>

record runner_state =
  target :: "nat option"
  meter :: "(nat \<times> path) option"
  trace :: "event list"

text \<open>
  The operating system and the profiler plugin: \<open>popen\<close> spawns the command and gives the
  pid, or raises; \<open>meter_start\<close> and \<open>meter_stop\<close> raise or not; \<open>target_exits\<close> tells
  whether the process with that pid ever terminates, so whether \<open>wait()\<close> returns;
  \<open>arithmetic\<close> is the float arithmetic of the interpreter and of numpy.
\<close>

record lifecycle_env =
  executable :: string
  popen :: "string \<Rightarrow> error + nat"
  meter_start :: "nat \<Rightarrow> path \<Rightarrow> error option"
  target_exits :: "nat \<Rightarrow> bool"
  meter_stop :: "nat \<Rightarrow> error option"
  target_logfile :: "nat \<Rightarrow> path \<Rightarrow> path"
  parse_log :: "path \<Rightarrow> error + parsed_log"
  arithmetic :: float_ops

datatype hook_result =
    Returns runner_state
  | Raises error runner_state
  | Blocks runner_state

text \<open>The command line of \<open>start_run\<close>, lines 98 to 108; the lookups are in its order.\<close>

definition build_cmd :: "lifecycle_env \<Rightarrow> runner_context \<Rightarrow> error + string" where
  "build_cmd env ctx =
     (case subscript (execute_run ctx) ''ocr_library'' of
        Inl e \<Rightarrow> Inl e
      | Inr lib \<Rightarrow>
     (case subscript (execute_run ctx) ''sample_size'' of
        Inl e \<Rightarrow> Inl e
      | Inr ssize \<Rightarrow>
     (case subscript (execute_run ctx) ''document_type'' of
        Inl e \<Rightarrow> Inl e
      | Inr doc \<Rightarrow>
     (case subscript (execute_run ctx) ''dataset'' of
        Inl e \<Rightarrow> Inl e
      | Inr ds \<Rightarrow>
     (case subscript (execute_run ctx) ''language'' of
        Inl e \<Rightarrow> Inl e
      | Inr lang \<Rightarrow>
          Inr (executable env
               @ ''  run_'' @ lib @ ''.py''
               @ ''  --sample-size '' @ ssize
               @ ''  --seed 42''
               @ ''  --document-type '' @ doc
               @ ''  --dataset '' @ ds
               @ ''  --run-dir '' @ path_name (context_run_dir ctx)
               @ ''  --language-type '' @ lang))))))"

definition start_run :: "lifecycle_env \<Rightarrow> runner_context \<Rightarrow> runner_state \<Rightarrow> hook_result" where
  "start_run env ctx s =
     (case build_cmd env ctx of
        Inl e \<Rightarrow> Raises e s
      | Inr cmd \<Rightarrow>
          (case popen env cmd of
             Inl e \<Rightarrow> Raises e s
           | Inr pid \<Rightarrow> Returns (s\<lparr>target := Some pid, trace := trace s @ [Spawned pid cmd]\<rparr>)))"

definition start_measurement ::
  "lifecycle_env \<Rightarrow> runner_context \<Rightarrow> runner_state \<Rightarrow> hook_result" where
  "start_measurement env ctx s =
     (case target s of
        None \<Rightarrow> Raises (AttributeError ''target'') s
      | Some pid \<Rightarrow>
          (let out_file = context_run_dir ctx @ [''powerjoular.csv''];
               s' = s\<lparr>meter := Some (pid, out_file)\<rparr>
           in case meter_start env pid out_file of
                Some e \<Rightarrow> Raises e s'
              | None \<Rightarrow> Returns (s'\<lparr>trace := trace s' @ [ProfilerStarted pid out_file]\<rparr>)))"

definition interact :: "lifecycle_env \<Rightarrow> runner_context \<Rightarrow> runner_state \<Rightarrow> hook_result" where
  "interact env ctx s =
     (case target s of
        None \<Rightarrow> Raises (AttributeError ''target'') s
      | Some pid \<Rightarrow>
          (if target_exits env pid
           then Returns (s\<lparr>trace := trace s @ [TargetTerminated pid]\<rparr>)
           else Blocks s))"

definition stop_measurement ::
  "lifecycle_env \<Rightarrow> runner_context \<Rightarrow> runner_state \<Rightarrow> hook_result" where
  "stop_measurement env ctx s =
     (case meter s of
        None \<Rightarrow> Raises (AttributeError ''meter'') s
      | Some (pid, out_file) \<Rightarrow>
          (case meter_stop env pid of
             Some e \<Rightarrow> Raises e s
           | None \<Rightarrow> Returns (s\<lparr>trace := trace s @ [ProfilerStopped pid]\<rparr>)))"

definition stop_run :: "lifecycle_env \<Rightarrow> runner_context \<Rightarrow> runner_state \<Rightarrow> hook_result" where
  "stop_run env ctx s =
     (case target s of
        None \<Rightarrow> Raises (AttributeError ''target'') s
      | Some pid \<Rightarrow> Returns (s\<lparr>trace := trace s @ [TargetKilled pid]\<rparr>))"

text \<open>\<open>populate_run_data\<close> as a hook: the two logs it parses are those of \<open>self.meter\<close>.\<close>

definition populate_run_data ::
  "lifecycle_env \<Rightarrow> runner_context \<Rightarrow> runner_state \<Rightarrow> error + run_data" where
  "populate_run_data env ctx s =
     (let out_file = context_run_dir ctx @ [''powerjoular.csv''] in
      case meter s of
        None \<Rightarrow> Inl (AttributeError ''meter'')
      | Some (pid, f) \<Rightarrow>
          (case parse_log env out_file of
             Inl e \<Rightarrow> Inl e
           | Inr results_global \<Rightarrow>
               populate_run_data_PowerJoular (arithmetic env) (Inr results_global)
                 (parse_log env (target_logfile env pid f))))"

text \<open>
  Modelled from the spec: the scheduler that fires the hooks is not among the sources.
  The design document treats it as an external scheduler that calls the hooks in a fixed
  order; the order is that of the events in the subscription list of \<open>__init__\<close>.  A hook
  that raises ends the run as failed; a hook that never returns leaves it hung.
\<close>

definition and_then :: "hook_result \<Rightarrow> (runner_state \<Rightarrow> hook_result) \<Rightarrow> hook_result" where
  "and_then r hook = (case r of Returns s \<Rightarrow> hook s | Raises e s \<Rightarrow> Raises e s | Blocks s \<Rightarrow> Blocks s)"

datatype outcome =
    Done run_data runner_state
  | Failed error runner_state
  | Hung runner_state

definition run_hooks :: "lifecycle_env \<Rightarrow> runner_context \<Rightarrow> runner_state \<Rightarrow> hook_result" where
  "run_hooks env ctx s =
     and_then (and_then (and_then (and_then (start_run env ctx s)
       (start_measurement env ctx)) (interact env ctx)) (stop_measurement env ctx))
       (stop_run env ctx)"

definition run_lifecycle :: "lifecycle_env \<Rightarrow> runner_context \<Rightarrow> runner_state \<Rightarrow> outcome" where
  "run_lifecycle env ctx s =
     (case run_hooks env ctx s of
        Raises e s' \<Rightarrow> Failed e s'
      | Blocks s' \<Rightarrow> Hung s'
      | Returns s' \<Rightarrow>
          (case populate_run_data env ctx s' of
             Inl e \<Rightarrow> Failed e s'
           | Inr d \<Rightarrow> Done d s'))"

fun final_state :: "outcome \<Rightarrow> runner_state" where
  "final_state (Done d s) = s"
| "final_state (Failed e s) = s"
| "final_state (Hung s) = s"

text \<open>
  A run to evaluate the lifecycle on: the row of one run, an operating system that
  spawns the target with the pid 4711, and a profiler that starts and stops.  Whether the
  target terminates is the argument.
\<close>

definition example_context :: runner_context where
  "example_context =
     \<lparr>execute_run =
        [''ocr_library'' \<mapsto> ''tesseract'', ''sample_size'' \<mapsto> ''20'',
         ''document_type'' \<mapsto> ''Book'', ''dataset'' \<mapsto> ''Omni_Dataset'',
         ''language'' \<mapsto> ''eng''],
      context_run_dir = [''experiments'', ''new_runner_experiment'', ''run_0_repetition_0'']\<rparr>"

definition example_lifecycle_env :: "bool \<Rightarrow> lifecycle_env" where
  "example_lifecycle_env terminates =
     \<lparr>executable = ''python3'',
      popen = (\<lambda>cmd. Inr 4711),
      meter_start = (\<lambda>pid f. None),
      target_exits = (\<lambda>pid. terminates),
      meter_stop = (\<lambda>pid. None),
      target_logfile = (\<lambda>pid f. butlast f @ [''powerjoular.csv-4711.csv'']),
      parse_log = (\<lambda>p. Inr example_log),
      arithmetic = example_arithmetic\<rparr>"

definition example_cmd :: string where
  "example_cmd =
     ''python3  run_tesseract.py  --sample-size 20  --seed 42  --document-type Book''
     @ ''  --dataset Omni_Dataset  --run-dir run_0_repetition_0  --language-type eng''"

section \<open>Facts about the primitives\<close>

lemma foldl_max_eq: "foldl (\<lambda>m x. if m < x then x else m) (v::rat) rest = Max (set (v # rest))"
proof (induction rest arbitrary: v)
  case Nil
  then show ?case by simp
next
  case (Cons a rest)
  have "Max (set ((if v < a then a else v) # rest)) = Max (set (v # a # rest))"
  proof -
    have "(if v < a then a else v) = max v a" by (simp add: max_def)
    moreover have "Max (insert (max v a) (set rest)) = Max (insert v (insert a (set rest)))"
      by (cases "set rest = {}") (simp_all add: max.assoc)
    ultimately show ?thesis by simp
  qed
  with Cons show ?case by simp
qed

lemma py_max_nonempty: "vs \<noteq> [] \<Longrightarrow> py_max vs = Inr (Max (set vs))"
  unfolding py_max_def using foldl_max_eq by (cases vs) simp_all

section \<open>Properties of the metric extraction\<close>


lemma EnergiBridge_all_sources:
  assumes "eb_summary ''total_joules'' = Some e"
    and "eb_summary ''runtime_seconds'' = Some r"
    and "eb_log ''USED_MEMORY'' = Some used"
    and "used \<noteq> []"
  shows "populate_run_data_EnergiBridge (Inr (eb_log, eb_summary)) =
      Inr [(''energy'', Num e), (''runtime'', Num r), (''memory'', Num (Max (set used)))]"
proof -
  have "py_max used = Inr (Max (set used))"
    using assms(4) by (rule py_max_nonempty)
  then show ?thesis
    using assms(1-3) by (simp add: populate_run_data_EnergiBridge_def subscript_def)
qed






text \<open>
  Claim C6.  When the summary has its two totals and the parsed log has a non-empty
  \<open>USED_MEMORY\<close> series, the wrapping configuration reports as \<open>memory\<close> the maximum of
  the series: a reading of the series that no reading exceeds.
\<close>

theorem peak_memory_is_maximum:
  assumes "eb_summary ''total_joules'' = Some e"
    and "eb_summary ''runtime_seconds'' = Some r"
    and "eb_log ''USED_MEMORY'' = Some used"
    and "used \<noteq> []"
  shows "\<exists>d. populate_run_data_EnergiBridge (Inr (eb_log, eb_summary)) = Inr d
           \<and> map_of d ''memory'' = Some (Num (Max (set used)))
           \<and> (\<forall>v \<in> set used. v \<le> Max (set used)) \<and> Max (set used) \<in> set used"
proof -
  have "populate_run_data_EnergiBridge (Inr (eb_log, eb_summary)) =
      Inr [(''energy'', Num e), (''runtime'', Num r), (''memory'', Num (Max (set used)))]"
    using assms by (rule EnergiBridge_all_sources)
  moreover have "Max (set used) \<in> set used"
    using assms(4) by (intro Max_in) simp_all
  ultimately show ?thesis by simp
qed

text \<open>
  The theorem of claim C6 at the series 100, 250, 180: the reported memory is 250, and
  250 is not the mean 530/3.
\<close>

theorem peak_memory_is_maximum_witness:
  "populate_run_data_EnergiBridge
     (Inr ([''USED_MEMORY'' \<mapsto> [100, 250, 180]],
           [''total_joules'' \<mapsto> 42, ''runtime_seconds'' \<mapsto> 7])) =
     Inr [(''energy'', Num 42), (''runtime'', Num 7), (''memory'', Num 250)]
   \<and> Max (set [100, 250, 180 :: rat]) = 250
   \<and> (250 :: rat) \<noteq> (100 + 250 + 180) / 3"
  using peak_memory_is_maximum [of "[''total_joules'' \<mapsto> 42, ''runtime_seconds'' \<mapsto> 7]" 42 7
      "[''USED_MEMORY'' \<mapsto> [100, 250, 180]]" "[100, 250, 180]"]
  by (simp add: populate_run_data_EnergiBridge_def subscript_def py_max_def)

text \<open>
  Claim C8, as amended.  When a key that the extraction reads is absent from the parsed
  output, the extraction raises Python's \<open>KeyError\<close> carrying the absent key of the
  profiler's output (\<open>total_joules\<close>, \<open>runtime_seconds\<close>, \<open>USED_MEMORY\<close>,
  \<open>CPU Utilization\<close>, \<open>CPU Power\<close>), the first absent one in the order in which the
  dictionary literal reads them, and returns no run data: no default is substituted.
\<close>

theorem missing_source_raises_KeyError:
  "(eb_summary ''total_joules'' = None \<longrightarrow>
      populate_run_data_EnergiBridge (Inr (eb_log, eb_summary)) = Inl (KeyError ''total_joules''))
   \<and> (eb_summary ''total_joules'' \<noteq> None \<and> eb_summary ''runtime_seconds'' = None \<longrightarrow>
      populate_run_data_EnergiBridge (Inr (eb_log, eb_summary)) = Inl (KeyError ''runtime_seconds''))
   \<and> (eb_summary ''total_joules'' \<noteq> None \<and> eb_summary ''runtime_seconds'' \<noteq> None
        \<and> eb_log ''USED_MEMORY'' = None \<longrightarrow>
      populate_run_data_EnergiBridge (Inr (eb_log, eb_summary)) = Inl (KeyError ''USED_MEMORY''))
   \<and> (results_global ''CPU Utilization'' = None \<longrightarrow>
      populate_run_data_PowerJoular ops (Inr results_global) (Inr results_process) =
        Inl (KeyError ''CPU Utilization''))
   \<and> (results_global ''CPU Utilization'' \<noteq> None \<and> results_global ''CPU Power'' = None \<longrightarrow>
      populate_run_data_PowerJoular ops (Inr results_global) (Inr results_process) =
        Inl (KeyError ''CPU Power''))"
proof (intro conjI impI)
  assume "eb_summary ''total_joules'' = None"
  then show "populate_run_data_EnergiBridge (Inr (eb_log, eb_summary)) = Inl (KeyError ''total_joules'')"
    by (simp add: populate_run_data_EnergiBridge_def subscript_def)
next
  assume "eb_summary ''total_joules'' \<noteq> None \<and> eb_summary ''runtime_seconds'' = None"
  then show "populate_run_data_EnergiBridge (Inr (eb_log, eb_summary)) = Inl (KeyError ''runtime_seconds'')"
    by (auto simp: populate_run_data_EnergiBridge_def subscript_def)
next
  assume "eb_summary ''total_joules'' \<noteq> None \<and> eb_summary ''runtime_seconds'' \<noteq> None
        \<and> eb_log ''USED_MEMORY'' = None"
  then show "populate_run_data_EnergiBridge (Inr (eb_log, eb_summary)) = Inl (KeyError ''USED_MEMORY'')"
    by (auto simp: populate_run_data_EnergiBridge_def subscript_def)
next
  assume "results_global ''CPU Utilization'' = None"
  then show "populate_run_data_PowerJoular ops (Inr results_global) (Inr results_process) =
        Inl (KeyError ''CPU Utilization'')"
    by (simp add: populate_run_data_PowerJoular_def subscript_def)
next
  assume "results_global ''CPU Utilization'' \<noteq> None \<and> results_global ''CPU Power'' = None"
  then show "populate_run_data_PowerJoular ops (Inr results_global) (Inr results_process) =
        Inl (KeyError ''CPU Power'')"
    by (auto simp: populate_run_data_PowerJoular_def subscript_def)
qed

text \<open>
  The theorem of claim C8 at a summary without \<open>total_joules\<close>, at a parsed log without
  \<open>USED_MEMORY\<close>, and at a parsed log without \<open>CPU Utilization\<close>.
\<close>

theorem missing_source_raises_KeyError_witness:
  "populate_run_data_EnergiBridge
     (Inr ([''USED_MEMORY'' \<mapsto> [100, 250, 180]], [''runtime_seconds'' \<mapsto> 7])) =
     Inl (KeyError ''total_joules'')
   \<and> populate_run_data_PowerJoular example_arithmetic
       (Inr [''CPU Power'' \<mapsto> [10, 10, 10]]) (Inr Map.empty) =
     Inl (KeyError ''CPU Utilization'')"
  using missing_source_raises_KeyError
      [of "[''runtime_seconds'' \<mapsto> 7]" "[''USED_MEMORY'' \<mapsto> [100, 250, 180]]"
          "[''CPU Power'' \<mapsto> [10, 10, 10]]" example_arithmetic Map.empty]
  by simp

text \<open>
  Claim C8 as stated fails: for a summary without \<open>total_joules\<close> the error is not a
  \<open>MissingMetric\<close> naming the data column \<open>energy\<close>; it is a \<open>KeyError\<close> naming the key
  of the summary.
\<close>

theorem missing_metric_counterexample:
  "populate_run_data_EnergiBridge
     (Inr ([''USED_MEMORY'' \<mapsto> [100, 250, 180]], [''runtime_seconds'' \<mapsto> 7])) =
     Inl (KeyError ''total_joules'')
   \<and> populate_run_data_EnergiBridge
     (Inr ([''USED_MEMORY'' \<mapsto> [100, 250, 180]], [''runtime_seconds'' \<mapsto> 7])) \<noteq>
     Inl (MissingMetric ''energy'')"
  by (simp add: populate_run_data_EnergiBridge_def subscript_def)

section \<open>Properties of the OCR workloads\<close>

lemma endswith_lower:
  assumes "endswith s suf" and "map lower_char suf = suf"
  shows "endswith (py_lower s) suf"
proof -
  from assms(1) have len: "length suf \<le> length s"
    and eq: "drop (length s - length suf) s = suf"
    by (simp_all add: endswith_def)
  have "drop (length s - length suf) (map lower_char s) = map lower_char suf"
    using eq by (simp add: drop_map)
  with len assms(2) show ?thesis by (simp add: endswith_def py_lower_def)
qed

lemma image_suffixes_lower: "suf \<in> set image_suffixes \<Longrightarrow> map lower_char suf = suf"
  by (auto simp: image_suffixes_def lower_char_def)

lemma endswith_any_lower:
  "endswith_any name image_suffixes \<Longrightarrow> endswith_any (py_lower name) image_suffixes"
  unfolding endswith_any_def list_ex_iff
  using endswith_lower image_suffixes_lower by blast

lemma paddle_loop_eq:
  "paddle_loop env img_folder images results =
     results @ map (\<lambda>img_name. (img_name,
        case predict env (os_path_join img_folder img_name) of
          Inr text_lines \<Rightarrow> py_join [CHR 0x0A] text_lines | Inl e \<Rightarrow> [])) images"
  by (induction images arbitrary: results) (simp_all split: sum.splits)

lemma tesseract_loop_eq:
  "list_all (\<lambda>img_name. endswith_any (py_lower img_name) image_suffixes) images \<Longrightarrow>
   tesseract_loop env img_folder images results =
     results @ map (\<lambda>img_name. (img_name,
        case predict env (os_path_join img_folder img_name) of
          Inr txt \<Rightarrow> txt | Inl e \<Rightarrow> [])) images"
  by (induction images arbitrary: results) (simp_all split: sum.splits)

lemma select_images_ok:
  assumes "truthy (dataset a)" and "truthy (document_type a)"
    and "listdir env (the (dataset a) @ ''/'' @ the (document_type a)) = Inr names"
    and "filter (\<lambda>name. endswith_any name image_suffixes) names \<noteq> []"
  shows "select_images env a =
     Inr (the (dataset a) @ ''/'' @ the (document_type a),
          if sample_size a > 0
          then rng_sample env (seed a) (filter (\<lambda>name. endswith_any name image_suffixes) names)
                 (nat (min (sample_size a)
                    (int (length (filter (\<lambda>name. endswith_any name image_suffixes) names)))))
          else filter (\<lambda>name. endswith_any name image_suffixes) names)"
  using assms by (simp add: select_images_def Let_def)

lemma select_images_cases:
  assumes "select_images env a = Inr (img_folder, images)"
  obtains names where "truthy (dataset a)" "truthy (document_type a)"
    "img_folder = the (dataset a) @ ''/'' @ the (document_type a)"
    "listdir env img_folder = Inr names"
    "filter (\<lambda>name. endswith_any name image_suffixes) names \<noteq> []"
    "images = (if sample_size a > 0
               then rng_sample env (seed a) (filter (\<lambda>name. endswith_any name image_suffixes) names)
                      (nat (min (sample_size a)
                         (int (length (filter (\<lambda>name. endswith_any name image_suffixes) names)))))
               else filter (\<lambda>name. endswith_any name image_suffixes) names)"
proof -
  define folder where "folder = the (dataset a) @ ''/'' @ the (document_type a)"
  have t: "truthy (dataset a) \<and> truthy (document_type a)"
    using assms
    by (cases "truthy (dataset a) \<and> truthy (document_type a)") (simp_all add: select_images_def)
  obtain names where l: "listdir env folder = Inr names"
    using assms t by (cases "listdir env folder") (simp_all add: select_images_def folder_def)
  have ne: "filter (\<lambda>name. endswith_any name image_suffixes) names \<noteq> []"
    using assms t l
    by (cases "filter (\<lambda>name. endswith_any name image_suffixes) names = []")
       (simp_all add: select_images_def folder_def)
  from select_images_ok [OF conjunct1 [OF t] conjunct2 [OF t] l [unfolded folder_def] ne] assms
  have "img_folder = folder" and
    "images = (if sample_size a > 0
               then rng_sample env (seed a) (filter (\<lambda>name. endswith_any name image_suffixes) names)
                      (nat (min (sample_size a)
                         (int (length (filter (\<lambda>name. endswith_any name image_suffixes) names)))))
               else filter (\<lambda>name. endswith_any name image_suffixes) names)"
    by (simp_all add: folder_def)
  with that t l ne show thesis by (simp add: folder_def)
qed

lemma selected_are_images:
  assumes "select_images env a = Inr (img_folder, images)"
    and "sample_contract (rng_sample env)"
  shows "list_all (\<lambda>name. endswith_any name image_suffixes) images"
proof -
  from assms(1) obtain names where
    im: "images = (if sample_size a > 0
               then rng_sample env (seed a) (filter (\<lambda>name. endswith_any name image_suffixes) names)
                      (nat (min (sample_size a)
                         (int (length (filter (\<lambda>name. endswith_any name image_suffixes) names)))))
               else filter (\<lambda>name. endswith_any name image_suffixes) names)"
    by (rule select_images_cases)
  let ?all = "filter (\<lambda>name. endswith_any name image_suffixes) names"
  have "set images \<subseteq> set ?all"
  proof (cases "sample_size a > 0")
    case True
    have "nat (min (sample_size a) (int (length ?all))) \<le> length ?all" by simp
    with assms(2) have "set (rng_sample env (seed a) ?all (nat (min (sample_size a) (int (length ?all)))))
        \<subseteq> set ?all"
      unfolding sample_contract_def by blast
    with True im show ?thesis by simp
  next
    case False
    with im show ?thesis by simp
  qed
  then show ?thesis by (auto simp: list_all_iff)
qed


lemma run_paddle_saved:
  assumes "select_images env a = Inr (img_folder, images)"
    and "run_paddle env a = Inr (loc, saved)"
  shows "saved = paddle_loop env img_folder images []"
  using assms
  by (simp add: run_paddle_def save_results_def Let_def split: if_splits option.splits)

lemma run_tesseract_saved:
  assumes "select_images env a = Inr (img_folder, images)"
    and "run_tesseract env a = Inr (loc, saved)"
  shows "saved = tesseract_loop env img_folder images []"
  using assms
  by (simp add: run_tesseract_def save_results_def Let_def split: option.splits)

text \<open>
  Claim C9, as amended.  For an invocation whose folder exists and holds at least one image,
  \<open>all_images\<close> being the names of the listing with an image suffix: with
  \<open>--sample-size 0\<close> the images processed are all of \<open>all_images\<close>, in the order of the
  listing; with \<open>--sample-size n\<close>, \<open>n > 0\<close>, they are the sample of size
  \<open>min(n, len(all_images))\<close> that the generator seeded with \<open>--seed\<close> draws from
  \<open>all_images\<close>, so that many names of \<open>all_images\<close>.  The selection is identical
  across invocations with the same arguments whose folder has the same listing, the same
  names in the same order, and whose generator draws the same sample from that list at
  that seed; it depends on nothing else of the environment.
\<close>

theorem sample_selection:
  assumes "sample_contract (rng_sample env)"
    and "truthy (dataset a)" and "truthy (document_type a)"
    and "img_folder = the (dataset a) @ ''/'' @ the (document_type a)"
    and "listdir env img_folder = Inr names"
    and "all_images = filter (\<lambda>name. endswith_any name image_suffixes) names"
    and "all_images \<noteq> []"
  shows "(sample_size a = 0 \<longrightarrow> select_images env a = Inr (img_folder, all_images))
     \<and> (sample_size a > 0 \<longrightarrow>
          (\<exists>images. select_images env a = Inr (img_folder, images)
             \<and> images = rng_sample env (seed a) all_images
                          (min (nat (sample_size a)) (length all_images))
             \<and> length images = min (nat (sample_size a)) (length all_images)
             \<and> set images \<subseteq> set all_images))
     \<and> (listdir env' img_folder = listdir env img_folder
          \<and> rng_sample env' (seed a) all_images = rng_sample env (seed a) all_images
          \<longrightarrow> select_images env' a = select_images env a)"
proof (intro conjI impI)
  note sel = select_images_ok [OF assms(2,3) assms(5) [unfolded assms(4)] assms(7) [unfolded assms(6)]]
  {
    assume "sample_size a = 0"
    with sel show "select_images env a = Inr (img_folder, all_images)"
      by (simp add: assms(4,6))
  next
    assume pos: "sample_size a > 0"
    let ?k = "min (nat (sample_size a)) (length all_images)"
    have k: "nat (min (sample_size a) (int (length all_images))) = ?k" by simp
    have "?k \<le> length all_images" by simp
    with assms(1) have "length (rng_sample env (seed a) all_images ?k) = ?k"
      and "set (rng_sample env (seed a) all_images ?k) \<subseteq> set all_images"
      unfolding sample_contract_def by blast+
    moreover have "select_images env a = Inr (img_folder, rng_sample env (seed a) all_images ?k)"
      using sel pos k by (simp add: assms(4,6))
    ultimately show "\<exists>images. select_images env a = Inr (img_folder, images)
             \<and> images = rng_sample env (seed a) all_images ?k
             \<and> length images = ?k \<and> set images \<subseteq> set all_images"
      by simp
  next
    assume same: "listdir env' img_folder = listdir env img_folder
          \<and> rng_sample env' (seed a) all_images = rng_sample env (seed a) all_images"
    then have "listdir env' (the (dataset a) @ ''/'' @ the (document_type a)) = Inr names"
      using assms(4,5) by simp
    from select_images_ok [OF assms(2,3) this assms(7) [unfolded assms(6)]] sel same
    show "select_images env' a = select_images env a"
      by (simp add: assms(6))
  }
qed


lemma example_listing:
  "listdir (example_env r) (the (dataset example_args) @ ''/'' @ the (document_type example_args))
     = Inr [''p1.png'', ''readme.txt'', ''p2.jpg'', ''p3.tiff'']"
  by (simp add: example_env_def example_args_def)

lemma example_images:
  "filter (\<lambda>name. endswith_any name image_suffixes) [''p1.png'', ''readme.txt'', ''p2.jpg'', ''p3.tiff'']
     = [''p1.png'', ''p2.jpg'', ''p3.tiff'']"
  by (simp add: endswith_any_def image_suffixes_def endswith_def)

lemma example_contract: "sample_contract (rng_sample (example_env r))"
  by (auto simp: sample_contract_def example_env_def dest: in_set_takeD)

text \<open>
  The theorem of claim C9 on the example folder, for the sample sizes 2, 0 and 7 (more
  than the three images there are).
\<close>

theorem sample_selection_witness:
  "select_images example_paddle_env example_args = Inr (''Omni_Dataset/Book'', [''p3.tiff'', ''p2.jpg''])
   \<and> select_images example_paddle_env (example_args\<lparr>sample_size := 0\<rparr>)
       = Inr (''Omni_Dataset/Book'', [''p1.png'', ''p2.jpg'', ''p3.tiff''])
   \<and> select_images example_paddle_env (example_args\<lparr>sample_size := 7\<rparr>)
       = Inr (''Omni_Dataset/Book'', [''p3.tiff'', ''p2.jpg'', ''p1.png''])"
proof -
  have t: "truthy (dataset (example_args\<lparr>sample_size := n\<rparr>))"
      "truthy (document_type (example_args\<lparr>sample_size := n\<rparr>))" for n
    by (simp_all add: truthy_def example_args_def)
  have l: "listdir example_paddle_env
        (the (dataset (example_args\<lparr>sample_size := n\<rparr>)) @ ''/'' @
         the (document_type (example_args\<lparr>sample_size := n\<rparr>)))
      = Inr [''p1.png'', ''readme.txt'', ''p2.jpg'', ''p3.tiff'']" for n
    using example_listing by (simp add: example_paddle_env_def example_args_def)
  have c: "sample_contract (rng_sample example_paddle_env)"
    unfolding example_paddle_env_def by (rule example_contract)
  have ne: "[''p1.png'', ''p2.jpg'', ''p3.tiff''] \<noteq> []" by simp
  have s: "rng_sample example_paddle_env 42 xs k = take k (rev xs)" for xs k
    by (simp add: example_paddle_env_def example_env_def)
  have sd: "seed (example_args\<lparr>sample_size := n\<rparr>) = 42" for n
    by (simp add: example_args_def)
  note w = sample_selection [OF c t(1) t(2) refl l example_images [symmetric] ne]
  note w0 = w [THEN conjunct1] and wn = w [THEN conjunct2, THEN conjunct1]
  have "select_images example_paddle_env (example_args\<lparr>sample_size := 2\<rparr>)
      = Inr (''Omni_Dataset/Book'', [''p3.tiff'', ''p2.jpg''])"
    using wn [of 2] s sd [of 2] by (simp add: example_args_def)
  moreover have "select_images example_paddle_env (example_args\<lparr>sample_size := 0\<rparr>)
      = Inr (''Omni_Dataset/Book'', [''p1.png'', ''p2.jpg'', ''p3.tiff''])"
    using w0 [of 0] by (simp add: example_args_def)
  moreover have "select_images example_paddle_env (example_args\<lparr>sample_size := 7\<rparr>)
      = Inr (''Omni_Dataset/Book'', [''p3.tiff'', ''p2.jpg'', ''p1.png''])"
    using wn [of 7] s sd [of 7] by (simp add: example_args_def)
  ultimately show ?thesis by (simp add: example_args_def)
qed


text \<open>
  Claim C10.  For the images selected, the loop of either script yields exactly one
  record per image, in the order of the selection: the image's name with the recognised
  text, or with the empty string when the recognition of that image raised.  Whatever the
  script saves is that array.  (For \<open>run_tesseract.py\<close> the sampler must return names of
  the population: then the \<open>continue\<close> of its loop is never taken.)
\<close>

theorem one_record_per_image:
  fixes penv :: "string list workload_env" and tenv :: "string workload_env"
  shows
   "(select_images penv a = Inr (img_folder, images) \<longrightarrow>
       paddle_loop penv img_folder images [] =
         map (\<lambda>img_name. (img_name,
                case predict penv (os_path_join img_folder img_name) of
                  Inr text_lines \<Rightarrow> py_join [CHR 0x0A] text_lines
                | Inl e \<Rightarrow> [])) images
       \<and> map fst (paddle_loop penv img_folder images []) = images
       \<and> (\<forall>loc saved. run_paddle penv a = Inr (loc, saved) \<longrightarrow>
             saved = paddle_loop penv img_folder images []))
    \<and> (sample_contract (rng_sample tenv) \<and> select_images tenv b = Inr (img_folder', images') \<longrightarrow>
       tesseract_loop tenv img_folder' images' [] =
         map (\<lambda>img_name. (img_name,
                case predict tenv (os_path_join img_folder' img_name) of
                  Inr txt \<Rightarrow> txt
                | Inl e \<Rightarrow> [])) images'
       \<and> map fst (tesseract_loop tenv img_folder' images' []) = images'
       \<and> (\<forall>loc saved. run_tesseract tenv b = Inr (loc, saved) \<longrightarrow>
             saved = tesseract_loop tenv img_folder' images' []))"
proof (intro conjI impI allI)
  show "paddle_loop penv img_folder images [] =
         map (\<lambda>img_name. (img_name,
                case predict penv (os_path_join img_folder img_name) of
                  Inr text_lines \<Rightarrow> py_join [CHR 0x0A] text_lines
                | Inl e \<Rightarrow> [])) images"
    by (simp add: paddle_loop_eq)
  show "map fst (paddle_loop penv img_folder images []) = images"
    by (simp add: paddle_loop_eq comp_def)
next
  fix loc saved
  assume "select_images penv a = Inr (img_folder, images)"
    and "run_paddle penv a = Inr (loc, saved)"
  then show "saved = paddle_loop penv img_folder images []"
    by (rule run_paddle_saved)
next
  assume h: "sample_contract (rng_sample tenv) \<and> select_images tenv b = Inr (img_folder', images')"
  then have "list_all (\<lambda>name. endswith_any name image_suffixes) images'"
    using selected_are_images by blast
  then have low: "list_all (\<lambda>name. endswith_any (py_lower name) image_suffixes) images'"
    by (simp add: list_all_iff endswith_any_lower)
  from tesseract_loop_eq [OF low]
  show "tesseract_loop tenv img_folder' images' [] =
         map (\<lambda>img_name. (img_name,
                case predict tenv (os_path_join img_folder' img_name) of
                  Inr txt \<Rightarrow> txt
                | Inl e \<Rightarrow> [])) images'"
    by simp
  from tesseract_loop_eq [OF low]
  show "map fst (tesseract_loop tenv img_folder' images' []) = images'"
    by (simp add: comp_def)
  fix loc saved
  assume "run_tesseract tenv b = Inr (loc, saved)"
  with h show "saved = tesseract_loop tenv img_folder' images' []"
    using run_tesseract_saved by blast
qed

lemma example_selected:
  "select_images (example_env r) example_args = Inr (''Omni_Dataset/Book'', [''p3.tiff'', ''p2.jpg''])"
proof -
  have "truthy (dataset example_args)" "truthy (document_type example_args)"
    by (simp_all add: truthy_def example_args_def)
  moreover have "filter (\<lambda>name. endswith_any name image_suffixes)
      [''p1.png'', ''readme.txt'', ''p2.jpg'', ''p3.tiff''] \<noteq> []"
    unfolding example_images by simp
  ultimately show ?thesis
    using select_images_ok [of example_args "example_env r", OF _ _ example_listing]
    unfolding example_images
    by (simp add: example_args_def example_env_def)
qed

text \<open>
  Claim C9 as stated fails in its last clause: with the same arguments and the same
  files in the folder, listed in another order, the same sampler selects another subset:
  \<open>p2.jpg\<close> is processed for one listing and not for the other.
\<close>

theorem sample_selection_counterexample:
  "select_images example_paddle_env example_args =
     Inr (''Omni_Dataset/Book'', [''p3.tiff'', ''p2.jpg''])
   \<and> select_images
       (example_paddle_env\<lparr>listdir := (\<lambda>d. if d = ''Omni_Dataset/Book''
           then Inr [''p2.jpg'', ''readme.txt'', ''p1.png'', ''p3.tiff'']
           else Inl (OSError ''No such file or directory''))\<rparr>) example_args =
     Inr (''Omni_Dataset/Book'', [''p3.tiff'', ''p1.png''])
   \<and> mset [''p1.png'', ''readme.txt'', ''p2.jpg'', ''p3.tiff''] =
       mset [''p2.jpg'', ''readme.txt'', ''p1.png'', ''p3.tiff'']
   \<and> ''p2.jpg'' \<in> set [''p3.tiff'', ''p2.jpg'']
   \<and> ''p2.jpg'' \<notin> set [''p3.tiff'', ''p1.png'']"
proof -
  let ?env = "example_paddle_env\<lparr>listdir := (\<lambda>d. if d = ''Omni_Dataset/Book''
           then Inr [''p2.jpg'', ''readme.txt'', ''p1.png'', ''p3.tiff'']
           else Inl (OSError ''No such file or directory''))\<rparr>"
  have t: "truthy (dataset example_args)" "truthy (document_type example_args)"
    by (simp_all add: truthy_def example_args_def)
  have l: "listdir ?env (the (dataset example_args) @ ''/'' @ the (document_type example_args))
      = Inr [''p2.jpg'', ''readme.txt'', ''p1.png'', ''p3.tiff'']"
    by (simp add: example_args_def)
  have f: "filter (\<lambda>name. endswith_any name image_suffixes)
      [''p2.jpg'', ''readme.txt'', ''p1.png'', ''p3.tiff''] = [''p2.jpg'', ''p1.png'', ''p3.tiff'']"
    by (simp add: endswith_any_def image_suffixes_def endswith_def)
  have ne: "filter (\<lambda>name. endswith_any name image_suffixes)
      [''p2.jpg'', ''readme.txt'', ''p1.png'', ''p3.tiff''] \<noteq> []"
    unfolding f by simp
  have relisted: "select_images ?env example_args =
      Inr (''Omni_Dataset/Book'', [''p3.tiff'', ''p1.png''])"
    using select_images_ok [OF t l ne] unfolding f
    by (simp add: example_args_def example_paddle_env_def example_env_def)
  have listed: "select_images example_paddle_env example_args =
      Inr (''Omni_Dataset/Book'', [''p3.tiff'', ''p2.jpg''])"
    unfolding example_paddle_env_def by (rule example_selected)
  have same: "mset [''p1.png'', ''readme.txt'', ''p2.jpg'', ''p3.tiff''] =
       mset [''p2.jpg'', ''readme.txt'', ''p1.png'', ''p3.tiff'']"
    by (simp add: add_mset_commute)
  have "''p2.jpg'' \<in> set [''p3.tiff'', ''p2.jpg'']"
    and "''p2.jpg'' \<notin> set [''p3.tiff'', ''p1.png'']"
    by simp_all
  with listed relisted same show ?thesis by (intro conjI)
qed

lemma example_joined: "os_path_join ''Omni_Dataset/Book'' ''p3.tiff'' = ''Omni_Dataset/Book/p3.tiff''"
  "os_path_join ''Omni_Dataset/Book'' ''p2.jpg'' = ''Omni_Dataset/Book/p2.jpg''"
  by (simp_all add: os_path_join_def)

text \<open>
  The theorem of claim C10 on the example folder, where the recognition of \<open>p3.tiff\<close>
  raises: both scripts save two records, the first with the empty prediction.
\<close>

theorem one_record_per_image_witness:
  "run_paddle example_paddle_env example_args =
     Inr (''experiments/new_runner_experiment/run_0_repetition_0/paddleocr_results.json'',
          [(''p3.tiff'', []), (''p2.jpg'', ''line one'' @ [CHR 0x0A] @ ''line two'')])
   \<and> run_tesseract example_tesseract_env example_args =
     Inr (''experiments/new_runner_experiment/run_0_repetition_0/tesseract_results.json'',
          [(''p3.tiff'', []), (''p2.jpg'', ''some text'')])"
proof -
  have p: "select_images example_paddle_env example_args = Inr (''Omni_Dataset/Book'', [''p3.tiff'', ''p2.jpg''])"
    unfolding example_paddle_env_def by (rule example_selected)
  have t: "select_images example_tesseract_env example_args = Inr (''Omni_Dataset/Book'', [''p3.tiff'', ''p2.jpg''])"
    unfolding example_tesseract_env_def by (rule example_selected)
  have c: "sample_contract (rng_sample example_tesseract_env)"
    unfolding example_tesseract_env_def by (rule example_contract)
  note w = one_record_per_image [of example_paddle_env example_args "''Omni_Dataset/Book''"
      "[''p3.tiff'', ''p2.jpg'']" example_tesseract_env example_args "''Omni_Dataset/Book''"
      "[''p3.tiff'', ''p2.jpg'']"]
  from w p have "paddle_loop example_paddle_env ''Omni_Dataset/Book'' [''p3.tiff'', ''p2.jpg''] [] =
      [(''p3.tiff'', []), (''p2.jpg'', ''line one'' @ [CHR 0x0A] @ ''line two'')]"
    by (simp add: example_joined) (simp add: example_paddle_env_def example_env_def)
  then have "run_paddle example_paddle_env example_args =
     Inr (''experiments/new_runner_experiment/run_0_repetition_0/paddleocr_results.json'',
          [(''p3.tiff'', []), (''p2.jpg'', ''line one'' @ [CHR 0x0A] @ ''line two'')])"
    using p by (simp add: run_paddle_def save_results_def example_args_def
        example_paddle_env_def example_env_def)
  moreover from w t c
  have "tesseract_loop example_tesseract_env ''Omni_Dataset/Book'' [''p3.tiff'', ''p2.jpg''] [] =
      [(''p3.tiff'', []), (''p2.jpg'', ''some text'')]"
    by (simp add: example_joined) (simp add: example_tesseract_env_def example_env_def)
  then have "run_tesseract example_tesseract_env example_args =
     Inr (''experiments/new_runner_experiment/run_0_repetition_0/tesseract_results.json'',
          [(''p3.tiff'', []), (''p2.jpg'', ''some text'')])"
    using t by (simp add: run_tesseract_def save_results_def example_args_def
        example_tesseract_env_def example_env_def)
  ultimately show ?thesis by simp
qed

section \<open>Properties of the run table generator\<close>

lemma cartesian_step:
  "concat (map (\<lambda>l. map (\<lambda>a. (n, l) # a) cs) ls) = map (\<lambda>(l, a). (n, l) # a) (List.product ls cs)"
  by (induction ls) simp_all

lemma length_cartesian: "length (cartesian fs) = prod_list (map (\<lambda>f. length (levels f)) fs)"
  by (induction fs) (simp_all add: cartesian_step)

lemma distinct_cartesian:
  "list_all (\<lambda>f. distinct (levels f)) fs \<Longrightarrow> distinct (cartesian fs)"
proof (induction fs)
  case Nil
  then show ?case by simp
next
  case (Cons f fs)
  then have "distinct (List.product (levels f) (cartesian fs))"
    by (simp add: distinct_product)
  moreover have "inj_on (\<lambda>(l, a). (factor_name f, l) # a) A" for A
    by (auto simp: inj_on_def)
  ultimately show ?case
    by (simp add: cartesian_step distinct_map)
qed

lemma length_survivors:
  "length (survivors fs rules) + length (filter (excluded rules) (cartesian fs)) = length (cartesian fs)"
  unfolding survivors_def
  using sum_length_filter_compl [of "excluded rules" "cartesian fs"] by simp

lemma survivors_not_excluded: "a \<in> set (survivors fs rules) \<Longrightarrow> \<not> excluded rules a"
  by (simp add: survivors_def)

lemma length_replicate_runs: "length (replicate_runs reps as) = reps * length as"
  by (induction as) (simp_all add: replicate_runs_def)

lemma set_replicate_runs: "r \<in> set (replicate_runs reps as) \<Longrightarrow> fst r \<in> set as \<and> snd r < reps"
  by (auto simp: replicate_runs_def)

lemma distinct_replicate_runs: "distinct as \<Longrightarrow> distinct (replicate_runs reps as)"
  unfolding replicate_runs_def
  by (induction as) (auto simp: distinct_map inj_on_def)

lemma mset_shuffle_with: "mset (shuffle_with draws k xs) = mset xs"
proof (induction draws k xs rule: shuffle_with.induct)
  case (1 draws k xs)
  show ?case
  proof (cases "xs = []")
    case True
    then show ?thesis by (simp add: shuffle_with.simps)
  next
    case False
    define i where "i = draws k mod length xs"
    from False have i: "i < length xs" by (simp add: i_def)
    have "mset (shuffle_with draws (Suc k) (take i xs @ drop (Suc i) xs))
        = mset (take i xs @ drop (Suc i) xs)"
      using "1.IH" [OF False i_def] .
    moreover have "shuffle_with draws k xs
        = xs ! i # shuffle_with draws (Suc k) (take i xs @ drop (Suc i) xs)"
      using False by (subst shuffle_with.simps) (simp add: i_def Let_def)
    moreover have "xs = take i xs @ xs ! i # drop (Suc i) xs"
      using i by (rule id_take_nth_drop)
    then have "mset xs = add_mset (xs ! i) (mset (take i xs @ drop (Suc i) xs))"
      by (metis mset.simps(2) mset_append union_mset_add_mset_right)
    ultimately show ?thesis by simp
  qed
qed

lemma length_shuffle_with: "length (shuffle_with draws k xs) = length xs"
  using mset_shuffle_with [of draws k xs] by (metis size_mset)

lemma set_shuffle_with: "set (shuffle_with draws k xs) = set xs"
  using mset_shuffle_with [of draws k xs] by (metis set_mset_mset)


lemma survivors_EnergiBridge:
  "length (survivors (factors create_run_table_model_EnergiBridge)
     (exclude_combinations create_run_table_model_EnergiBridge)) = 28"
  by code_simp

lemma survivors_PowerJoular:
  "length (survivors (factors create_run_table_model_PowerJoular)
     (exclude_combinations create_run_table_model_PowerJoular)) = 56"
  by code_simp

lemma survivors_forced_EnergiBridge:
  "list_all
     (\<lambda>a. case map_of a ''document_type'' of
            None \<Rightarrow> False
          | Some d \<Rightarrow>
              map_of a ''dataset'' =
                Some (if d \<in> set [LStr ''Old_books_2noise'', LStr ''Old_books_Arabic'',
                                  LStr ''Old_books_No_noise'']
                      then LStr ''Noisy_Dataset'' else LStr ''Omni_Dataset'')
              \<and> map_of a ''language'' =
                Some (if d = LStr ''Old_books_Arabic'' then LStr ''ara'' else LStr ''eng''))
     (survivors (factors create_run_table_model_EnergiBridge)
        (exclude_combinations create_run_table_model_EnergiBridge))"
  by code_simp

lemma generate_Inr:
  assumes "list_all (\<lambda>f. levels f \<noteq> []) fs" and "survivors fs rules \<noteq> []"
  shows "generate rng fs rules reps sh sd =
     Inr (if sh then shuffle_with (rng sd) 0 (replicate_runs reps (survivors fs rules))
          else replicate_runs reps (survivors fs rules))"
proof -
  have "find (\<lambda>f. levels f = []) fs = None"
    using assms(1) by (simp add: find_None_iff list_all_iff)
  with assms(2) show ?thesis by (simp add: generate_def Let_def)
qed

lemma generate_cases:
  assumes "generate rng fs rules reps sh sd = Inr table"
  shows "table = (if sh then shuffle_with (rng sd) 0 (replicate_runs reps (survivors fs rules))
          else replicate_runs reps (survivors fs rules))"
  using assms by (simp add: generate_def Let_def split: option.splits if_splits)

lemma generate_table_set:
  assumes "generate rng fs rules reps sh sd = Inr table" and "r \<in> set table"
  shows "fst r \<in> set (survivors fs rules) \<and> snd r < reps"
proof -
  from generate_cases [OF assms(1)] assms(2)
  have "r \<in> set (replicate_runs reps (survivors fs rules))"
    by (simp add: set_shuffle_with split: if_splits)
  then show ?thesis by (rule set_replicate_runs)
qed

lemma levels_EnergiBridge:
  "list_all (\<lambda>f. levels f \<noteq> []) (factors create_run_table_model_EnergiBridge)"
  "list_all (\<lambda>f. distinct (levels f)) (factors create_run_table_model_EnergiBridge)"
  by (simp_all add: create_run_table_model_EnergiBridge_def document_types_def)

lemma levels_PowerJoular:
  "list_all (\<lambda>f. levels f \<noteq> []) (factors create_run_table_model_PowerJoular)"
  "list_all (\<lambda>f. distinct (levels f)) (factors create_run_table_model_PowerJoular)"
  by (simp_all add: create_run_table_model_PowerJoular_def document_types_def)

lemma generate_EnergiBridge:
  "generate_run_table rng create_run_table_model_EnergiBridge sd =
     Inr (shuffle_with (rng sd) 0 (replicate_runs 30
       (survivors (factors create_run_table_model_EnergiBridge)
          (exclude_combinations create_run_table_model_EnergiBridge))))"
proof -
  have "survivors (factors create_run_table_model_EnergiBridge)
          (exclude_combinations create_run_table_model_EnergiBridge) \<noteq> []"
    using survivors_EnergiBridge by auto
  from generate_Inr [OF levels_EnergiBridge(1) this]
  show ?thesis
    unfolding generate_run_table_def
    by (simp add: create_run_table_model_EnergiBridge_def)
qed

lemma generate_PowerJoular:
  "generate_run_table rng create_run_table_model_PowerJoular sd =
     Inr (shuffle_with (rng sd) 0 (replicate_runs 10
       (survivors (factors create_run_table_model_PowerJoular)
          (exclude_combinations create_run_table_model_PowerJoular))))"
proof -
  have "survivors (factors create_run_table_model_PowerJoular)
          (exclude_combinations create_run_table_model_PowerJoular) \<noteq> []"
    using survivors_PowerJoular by auto
  from generate_Inr [OF levels_PowerJoular(1) this]
  show ?thesis
    unfolding generate_run_table_def
    by (simp add: create_run_table_model_PowerJoular_def)
qed

text \<open>
  Claim C1.  For the model that \<open>RunnerConfig_EnergiBridge\<close> declares: the Cartesian
  product of the five factors has 2 * 7 * 2 * 2 * 2 = 112 assignments, the four rules
  exclude 84 of them, the surviving assignments are pairwise different and there are
  112 - 84 = 28 of them, each with the one dataset and the one language that the rules
  leave to its document type, and for every seed the generated table has 28 * 30 = 840
  runs, pairwise different as pairs of an assignment and a repetition index.
\<close>

theorem run_table_count_EnergiBridge:
  "length (cartesian (factors create_run_table_model_EnergiBridge)) = 2 * 7 * 2 * 2 * 2
   \<and> length (filter (excluded (exclude_combinations create_run_table_model_EnergiBridge))
        (cartesian (factors create_run_table_model_EnergiBridge))) = 84
   \<and> distinct (survivors (factors create_run_table_model_EnergiBridge)
        (exclude_combinations create_run_table_model_EnergiBridge))
   \<and> card (set (survivors (factors create_run_table_model_EnergiBridge)
        (exclude_combinations create_run_table_model_EnergiBridge))) = 112 - 84
   \<and> list_all
     (\<lambda>a. case map_of a ''document_type'' of
            None \<Rightarrow> False
          | Some d \<Rightarrow>
              map_of a ''dataset'' =
                Some (if d \<in> set [LStr ''Old_books_2noise'', LStr ''Old_books_Arabic'',
                                  LStr ''Old_books_No_noise'']
                      then LStr ''Noisy_Dataset'' else LStr ''Omni_Dataset'')
              \<and> map_of a ''language'' =
                Some (if d = LStr ''Old_books_Arabic'' then LStr ''ara'' else LStr ''eng''))
     (survivors (factors create_run_table_model_EnergiBridge)
        (exclude_combinations create_run_table_model_EnergiBridge))
   \<and> (\<exists>table. generate_run_table rng create_run_table_model_EnergiBridge sd = Inr table
        \<and> length table = 28 * 30 \<and> distinct table)"
proof -
  let ?fs = "factors create_run_table_model_EnergiBridge"
  let ?rules = "exclude_combinations create_run_table_model_EnergiBridge"
  have c: "length (cartesian ?fs) = 112"
    by (simp add: length_cartesian create_run_table_model_EnergiBridge_def document_types_def)
  have e: "length (filter (excluded ?rules) (cartesian ?fs)) = 84"
    using length_survivors [of ?fs ?rules] c survivors_EnergiBridge by simp
  have d: "distinct (survivors ?fs ?rules)"
    unfolding survivors_def
    using distinct_cartesian [OF levels_EnergiBridge(2)] by (rule distinct_filter)
  then have n: "card (set (survivors ?fs ?rules)) = 28"
    using survivors_EnergiBridge by (simp add: distinct_card)
  let ?table = "shuffle_with (rng sd) 0 (replicate_runs 30 (survivors ?fs ?rules))"
  have "length ?table = 840"
    by (simp add: length_shuffle_with length_replicate_runs survivors_EnergiBridge)
  moreover have "distinct ?table"
    using distinct_replicate_runs [OF d, of 30] mset_shuffle_with [of "rng sd" 0]
    by (metis mset_eq_imp_distinct_iff)
  ultimately have "\<exists>table. generate_run_table rng create_run_table_model_EnergiBridge sd = Inr table
        \<and> length table = 28 * 30 \<and> distinct table"
    using generate_EnergiBridge [of rng sd] by simp
  with c e d n survivors_forced_EnergiBridge show ?thesis by simp
qed

text \<open>
  The theorem of claim C1 at the seed 42 of one generator of random numbers.
\<close>

theorem run_table_count_EnergiBridge_witness:
  "\<exists>table. generate_run_table (\<lambda>s k. nat s + k) create_run_table_model_EnergiBridge 42 = Inr table
      \<and> length table = 840"
proof -
  from run_table_count_EnergiBridge [of "\<lambda>s k. nat s + k" 42]
  obtain table where "generate_run_table (\<lambda>s k. nat s + k) create_run_table_model_EnergiBridge 42 = Inr table"
    and "length table = 28 * 30"
    by (elim conjE exE)
  then show ?thesis by simp
qed


lemma matches_Arabic_eng:
  "matches [(''document_type'', [LStr ''Old_books_Arabic'']), (''language'', [LStr ''eng''])] a
     = (map_of a ''document_type'' = Some (LStr ''Old_books_Arabic'')
        \<and> map_of a ''language'' = Some (LStr ''eng''))"
  by (simp add: matches_def split: option.splits)

lemma no_rule_matches:
  assumes "generate_run_table rng m sd = Inr table"
    and "r \<in> set table" and "rule \<in> set (exclude_combinations m)"
  shows "\<not> matches rule (fst r)"
proof -
  from assms(1,2) have "fst r \<in> set (survivors (factors m) (exclude_combinations m))"
    unfolding generate_run_table_def using generate_table_set by blast
  then have "\<not> excluded (exclude_combinations m) (fst r)"
    by (rule survivors_not_excluded)
  with assms(3) show ?thesis
    by (auto simp: excluded_def list_ex_iff)
qed

text \<open>
  Claim C2.  In a generated table no run matches a rule of the model.  Both declared
  models do yield a table, for every seed, and in it no run combines the document type
  \<open>Old_books_Arabic\<close> with the language \<open>eng\<close>.
\<close>

theorem no_excluded_run:
  "(generate_run_table rng m sd = Inr table \<longrightarrow>
      (\<forall>r \<in> set table. \<forall>rule \<in> set (exclude_combinations m). \<not> matches rule (fst r)))
   \<and> (\<exists>t. generate_run_table rng create_run_table_model_EnergiBridge sd = Inr t
        \<and> list_all (\<lambda>r. \<not> (map_of (fst r) ''document_type'' = Some (LStr ''Old_books_Arabic'')
                          \<and> map_of (fst r) ''language'' = Some (LStr ''eng''))) t)
   \<and> (\<exists>t. generate_run_table rng create_run_table_model_PowerJoular sd = Inr t
        \<and> list_all (\<lambda>r. \<not> (map_of (fst r) ''document_type'' = Some (LStr ''Old_books_Arabic'')
                          \<and> map_of (fst r) ''language'' = Some (LStr ''eng''))) t)"
proof (intro conjI impI ballI)
  fix r rule
  assume "generate_run_table rng m sd = Inr table" and "r \<in> set table"
    and "rule \<in> set (exclude_combinations m)"
  then show "\<not> matches rule (fst r)" by (rule no_rule_matches)
next
  let ?rule = "[(''document_type'', [LStr ''Old_books_Arabic'']), (''language'', [LStr ''eng''])]"
  obtain t where t: "generate_run_table rng create_run_table_model_EnergiBridge sd = Inr t"
    using generate_EnergiBridge by blast
  have "?rule \<in> set (exclude_combinations create_run_table_model_EnergiBridge)"
    by (simp add: create_run_table_model_EnergiBridge_def)
  with t have "\<forall>r \<in> set t. \<not> matches ?rule (fst r)"
    using no_rule_matches by blast
  with t show "\<exists>t. generate_run_table rng create_run_table_model_EnergiBridge sd = Inr t
        \<and> list_all (\<lambda>r. \<not> (map_of (fst r) ''document_type'' = Some (LStr ''Old_books_Arabic'')
                          \<and> map_of (fst r) ''language'' = Some (LStr ''eng''))) t"
    unfolding matches_Arabic_eng list_all_iff by blast
next
  let ?rule = "[(''document_type'', [LStr ''Old_books_Arabic'']), (''language'', [LStr ''eng''])]"
  obtain t where t: "generate_run_table rng create_run_table_model_PowerJoular sd = Inr t"
    using generate_PowerJoular by blast
  have "?rule \<in> set (exclude_combinations create_run_table_model_PowerJoular)"
    by (simp add: create_run_table_model_PowerJoular_def)
  with t have "\<forall>r \<in> set t. \<not> matches ?rule (fst r)"
    using no_rule_matches by blast
  with t show "\<exists>t. generate_run_table rng create_run_table_model_PowerJoular sd = Inr t
        \<and> list_all (\<lambda>r. \<not> (map_of (fst r) ''document_type'' = Some (LStr ''Old_books_Arabic'')
                          \<and> map_of (fst r) ''language'' = Some (LStr ''eng''))) t"
    unfolding matches_Arabic_eng list_all_iff by blast
qed

lemma scenario_table:
  "generate_run_table rng
     \<lparr>factors = [\<lparr>factor_name = ''ocr_library'', levels = [LStr ''paddle'', LStr ''tesseract'']\<rparr>,
                 \<lparr>factor_name = ''language'', levels = [LStr ''eng'', LStr ''ara'']\<rparr>],
      exclude_combinations = [[(''ocr_library'', [LStr ''paddle'']), (''language'', [LStr ''ara''])]],
      data_columns = [], repetitions = 2, shuffle = False\<rparr> sd =
   Inr [([(''ocr_library'', LStr ''paddle''), (''language'', LStr ''eng'')], 0),
        ([(''ocr_library'', LStr ''paddle''), (''language'', LStr ''eng'')], 1),
        ([(''ocr_library'', LStr ''tesseract''), (''language'', LStr ''eng'')], 0),
        ([(''ocr_library'', LStr ''tesseract''), (''language'', LStr ''eng'')], 1),
        ([(''ocr_library'', LStr ''tesseract''), (''language'', LStr ''ara'')], 0),
        ([(''ocr_library'', LStr ''tesseract''), (''language'', LStr ''ara'')], 1)]"
  by (simp add: generate_run_table_def generate_def survivors_def excluded_def matches_def
      replicate_runs_def upt_rec [of 0] upt_rec [of 1] numeral_2_eq_2)

text \<open>
  The theorem of claim C2 on the first example scenario of the design document: two
  factors, the rule that bans \<open>paddle\<close> with \<open>ara\<close>, two repetitions, no shuffle; six
  runs, none of them with \<open>paddle\<close> and \<open>ara\<close>.
\<close>

theorem no_excluded_run_witness:
  "generate_run_table (\<lambda>s k. k)
     \<lparr>factors = [\<lparr>factor_name = ''ocr_library'', levels = [LStr ''paddle'', LStr ''tesseract'']\<rparr>,
                 \<lparr>factor_name = ''language'', levels = [LStr ''eng'', LStr ''ara'']\<rparr>],
      exclude_combinations = [[(''ocr_library'', [LStr ''paddle'']), (''language'', [LStr ''ara''])]],
      data_columns = [], repetitions = 2, shuffle = False\<rparr> 0 =
   Inr [([(''ocr_library'', LStr ''paddle''), (''language'', LStr ''eng'')], 0),
        ([(''ocr_library'', LStr ''paddle''), (''language'', LStr ''eng'')], 1),
        ([(''ocr_library'', LStr ''tesseract''), (''language'', LStr ''eng'')], 0),
        ([(''ocr_library'', LStr ''tesseract''), (''language'', LStr ''eng'')], 1),
        ([(''ocr_library'', LStr ''tesseract''), (''language'', LStr ''ara'')], 0),
        ([(''ocr_library'', LStr ''tesseract''), (''language'', LStr ''ara'')], 1)]
   \<and> \<not> matches [(''ocr_library'', [LStr ''paddle'']), (''language'', [LStr ''ara''])]
         [(''ocr_library'', LStr ''tesseract''), (''language'', LStr ''ara'')]
   \<and> matches [(''ocr_library'', [LStr ''paddle'']), (''language'', [LStr ''ara''])]
         [(''ocr_library'', LStr ''paddle''), (''language'', LStr ''ara'')]"
proof -
  note w = no_excluded_run [THEN conjunct1, rule_format, OF scenario_table [of "\<lambda>s k. k" 0],
      of "([(''ocr_library'', LStr ''tesseract''), (''language'', LStr ''ara'')], 0)"
         "[(''ocr_library'', [LStr ''paddle'']), (''language'', [LStr ''ara''])]"]
  have "\<not> matches [(''ocr_library'', [LStr ''paddle'']), (''language'', [LStr ''ara''])]
         [(''ocr_library'', LStr ''tesseract''), (''language'', LStr ''ara'')]"
    using w by simp
  moreover have "matches [(''ocr_library'', [LStr ''paddle'']), (''language'', [LStr ''ara''])]
         [(''ocr_library'', LStr ''paddle''), (''language'', LStr ''ara'')]"
    by (simp add: matches_def)
  ultimately show ?thesis using scenario_table [of "\<lambda>s k. k" 0] by simp
qed






section \<open>Properties of the run lifecycle\<close>

lemma start_run_spawns:
  assumes "build_cmd env ctx = Inr cmd" and "popen env cmd = Inr pid"
  shows "start_run env ctx s = Returns (s\<lparr>target := Some pid, trace := trace s @ [Spawned pid cmd]\<rparr>)"
  using assms by (simp add: start_run_def)

lemma start_run_fails:
  assumes "build_cmd env ctx = Inl e \<or> (\<exists>cmd. build_cmd env ctx = Inr cmd \<and> popen env cmd = Inl e)"
  shows "run_lifecycle env ctx s = Failed e s"
  using assms by (auto simp: run_lifecycle_def run_hooks_def and_then_def start_run_def)

lemma final_state_hooks:
  "trace (final_state (run_lifecycle env ctx s)) =
     trace (case run_hooks env ctx s of Returns s' \<Rightarrow> s' | Raises e s' \<Rightarrow> s' | Blocks s' \<Rightarrow> s')"
  by (simp add: run_lifecycle_def split: hook_result.splits sum.splits)

lemma run_hooks_after_spawn:
  assumes "build_cmd env ctx = Inr cmd" and "popen env cmd = Inr pid"
  shows "run_hooks env ctx s =
     (let out_file = context_run_dir ctx @ [''powerjoular.csv''];
          s1 = s\<lparr>target := Some pid, meter := Some (pid, out_file),
                 trace := trace s @ [Spawned pid cmd]\<rparr>
      in case meter_start env pid out_file of
           Some e \<Rightarrow> Raises e s1
         | None \<Rightarrow>
             (let s2 = s1\<lparr>trace := trace s @ [Spawned pid cmd, ProfilerStarted pid out_file]\<rparr>
              in if \<not> target_exits env pid then Blocks s2
                 else (case meter_stop env pid of
                         Some e \<Rightarrow>
                           Raises e (s2\<lparr>trace := trace s @ [Spawned pid cmd,
                              ProfilerStarted pid out_file, TargetTerminated pid]\<rparr>)
                       | None \<Rightarrow>
                           Returns (s2\<lparr>trace := trace s @ [Spawned pid cmd,
                              ProfilerStarted pid out_file, TargetTerminated pid,
                              ProfilerStopped pid, TargetKilled pid]\<rparr>))))"
  unfolding run_hooks_def start_run_spawns [OF assms]
  by (simp add: and_then_def start_measurement_def interact_def stop_measurement_def
      stop_run_def Let_def split: option.splits)

text \<open>
  Claim C4.  In a run of the attaching configuration, from any state of the
  configuration object: when the command line is built and the target is spawned with
  the pid \<open>pid\<close>, the events of the run are a non-empty initial segment of the sequence
  spawn of \<open>pid\<close>, start of the profiler on \<open>pid\<close> and the run's \<open>powerjoular.csv\<close>,
  termination of \<open>pid\<close> (the return of \<open>wait\<close>), stop of the profiler, kill of \<open>pid\<close>;
  they are the whole sequence when the profiler starts and stops without raising and the
  target terminates; and when the target never terminates the profiler is not stopped.
  When the target is not spawned, the run has no event: the profiler is not started.
\<close>

theorem lifecycle_event_order:
  "(build_cmd env ctx = Inr cmd \<and> popen env cmd = Inr pid \<longrightarrow>
      (\<exists>n\<ge>1. trace (final_state (run_lifecycle env ctx s)) =
          trace s @ take n [Spawned pid cmd,
                            ProfilerStarted pid (context_run_dir ctx @ [''powerjoular.csv'']),
                            TargetTerminated pid, ProfilerStopped pid, TargetKilled pid])
      \<and> (meter_start env pid (context_run_dir ctx @ [''powerjoular.csv'']) = None
           \<and> target_exits env pid \<and> meter_stop env pid = None \<longrightarrow>
          trace (final_state (run_lifecycle env ctx s)) =
          trace s @ [Spawned pid cmd,
                     ProfilerStarted pid (context_run_dir ctx @ [''powerjoular.csv'']),
                     TargetTerminated pid, ProfilerStopped pid, TargetKilled pid])
      \<and> (\<not> target_exits env pid \<longrightarrow>
          ProfilerStopped pid \<notin> set (drop (length (trace s))
             (trace (final_state (run_lifecycle env ctx s))))))
   \<and> (build_cmd env ctx = Inl e \<or> (build_cmd env ctx = Inr cmd \<and> popen env cmd = Inl e) \<longrightarrow>
      trace (final_state (run_lifecycle env ctx s)) = trace s)"
proof (intro conjI impI)
  assume a: "build_cmd env ctx = Inr cmd \<and> popen env cmd = Inr pid"
  let ?out = "context_run_dir ctx @ [''powerjoular.csv'']"
  let ?all = "[Spawned pid cmd, ProfilerStarted pid ?out, TargetTerminated pid,
               ProfilerStopped pid, TargetKilled pid]"
  note h = run_hooks_after_spawn [OF conjunct1 [OF a] conjunct2 [OF a], of s]
  let ?final = "trace (final_state (run_lifecycle env ctx s))"
  consider (attach) err where "meter_start env pid ?out = Some err"
    | (hang) "meter_start env pid ?out = None" "\<not> target_exits env pid"
    | (stop) err where "meter_start env pid ?out = None" "target_exits env pid"
        "meter_stop env pid = Some err"
    | (full) "meter_start env pid ?out = None" "target_exits env pid" "meter_stop env pid = None"
    by (cases "meter_start env pid ?out"; cases "meter_stop env pid"; cases "target_exits env pid")
       auto
  then have "(?final = trace s @ take 1 ?all)
      \<or> (?final = trace s @ take 2 ?all \<and> \<not> target_exits env pid)
      \<or> (?final = trace s @ take 3 ?all \<and> target_exits env pid)
      \<or> (?final = trace s @ take 5 ?all \<and> meter_start env pid ?out = None
          \<and> target_exits env pid \<and> meter_stop env pid = None)"
  proof cases
    case attach
    then show ?thesis by (simp add: final_state_hooks h Let_def)
  next
    case hang
    then show ?thesis by (simp add: final_state_hooks h Let_def)
  next
    case stop
    then show ?thesis by (simp add: final_state_hooks h Let_def)
  next
    case full
    then show ?thesis by (simp add: final_state_hooks h Let_def)
  qed
  then consider (1) "?final = trace s @ take 1 ?all"
    | (2) "?final = trace s @ take 2 ?all" "\<not> target_exits env pid"
    | (3) "?final = trace s @ take 3 ?all" "target_exits env pid"
    | (5) "?final = trace s @ take 5 ?all"
    by blast
  note shape = this
  from shape show "\<exists>n\<ge>1. ?final = trace s @ take n ?all"
  proof cases
    case 1 then show ?thesis by (intro exI [of _ 1]) simp
  next
    case 2 then show ?thesis by (intro exI [of _ 2]) simp
  next
    case 3 then show ?thesis by (intro exI [of _ 3]) simp
  next
    case 5 then show ?thesis by (intro exI [of _ 5]) simp
  qed
  {
    assume "meter_start env pid ?out = None \<and> target_exits env pid \<and> meter_stop env pid = None"
    then show "?final = trace s @ ?all"
      by (simp add: final_state_hooks h Let_def)
  }
  {
    assume "\<not> target_exits env pid"
    with shape show "ProfilerStopped pid \<notin> set (drop (length (trace s)) ?final)"
    proof cases
      case 1 then show ?thesis by simp
    next
      case 2 then show ?thesis by simp
    next
      case 3 with \<open>\<not> target_exits env pid\<close> show ?thesis by simp
    next
      case 5
      with \<open>\<not> target_exits env pid\<close> h show ?thesis
        by (simp add: final_state_hooks Let_def split: option.splits)
    qed
  }
next
  assume "build_cmd env ctx = Inl e \<or> (build_cmd env ctx = Inr cmd \<and> popen env cmd = Inl e)"
  then have "run_lifecycle env ctx s = Failed e s"
    by (intro start_run_fails) blast
  then show "trace (final_state (run_lifecycle env ctx s)) = trace s" by simp
qed


lemma example_build_cmd: "build_cmd (example_lifecycle_env b) example_context = Inr example_cmd"
  by (simp add: build_cmd_def subscript_def example_lifecycle_env_def example_context_def
      example_cmd_def path_name_def)

text \<open>
  The theorem of claim C4 on the example run, with a target that terminates; with one
  that does not, the run hangs after the start of the profiler.
\<close>

theorem lifecycle_event_order_witness:
  "trace (final_state (run_lifecycle (example_lifecycle_env True) example_context
       \<lparr>target = None, meter = None, trace = []\<rparr>)) =
     [Spawned 4711 example_cmd,
      ProfilerStarted 4711
        [''experiments'', ''new_runner_experiment'', ''run_0_repetition_0'', ''powerjoular.csv''],
      TargetTerminated 4711, ProfilerStopped 4711, TargetKilled 4711]
   \<and> run_lifecycle (example_lifecycle_env False) example_context
       \<lparr>target = None, meter = None, trace = []\<rparr> =
     Hung \<lparr>target = Some 4711,
            meter = Some (4711, [''experiments'', ''new_runner_experiment'',
                                 ''run_0_repetition_0'', ''powerjoular.csv'']),
            trace = [Spawned 4711 example_cmd,
                     ProfilerStarted 4711 [''experiments'', ''new_runner_experiment'',
                                           ''run_0_repetition_0'', ''powerjoular.csv'']]\<rparr>"
proof -
  have p: "popen (example_lifecycle_env b) example_cmd = Inr 4711" for b
    by (simp add: example_lifecycle_env_def)
  have ok: "meter_start (example_lifecycle_env True) 4711
        (context_run_dir example_context @ [''powerjoular.csv'']) = None
      \<and> target_exits (example_lifecycle_env True) 4711
      \<and> meter_stop (example_lifecycle_env True) 4711 = None"
    by (simp add: example_lifecycle_env_def)
  from lifecycle_event_order [of "example_lifecycle_env True" example_context example_cmd 4711
      "\<lparr>target = None, meter = None, trace = []\<rparr>"] example_build_cmd [of True] p [of True] ok
  have "trace (final_state (run_lifecycle (example_lifecycle_env True) example_context
       \<lparr>target = None, meter = None, trace = []\<rparr>)) =
     [Spawned 4711 example_cmd,
      ProfilerStarted 4711 (context_run_dir example_context @ [''powerjoular.csv'']),
      TargetTerminated 4711, ProfilerStopped 4711, TargetKilled 4711]"
    by simp
  moreover have "run_lifecycle (example_lifecycle_env False) example_context
       \<lparr>target = None, meter = None, trace = []\<rparr> =
     Hung \<lparr>target = Some 4711,
            meter = Some (4711, context_run_dir example_context @ [''powerjoular.csv'']),
            trace = [Spawned 4711 example_cmd,
                     ProfilerStarted 4711 (context_run_dir example_context @ [''powerjoular.csv''])]\<rparr>"
    using run_hooks_after_spawn [OF example_build_cmd [of False] p [of False],
        of "\<lparr>target = None, meter = None, trace = []\<rparr>"]
    by (simp add: run_lifecycle_def Let_def) (simp add: example_lifecycle_env_def)
  ultimately show ?thesis by (simp add: example_context_def)
qed

end
